theory Spec2Isabelle
  imports Main "HOL-Library.Sublist" "HOL-Library.AList" "HOL-Library.Code_Target_Nat"
begin

section \<open>JavaScript values\<close>

text \<open>
  The values that reach \<^verbatim>\<open>app.js\<close> come from two places: cells of the spreadsheet
  (\<^verbatim>\<open>sheet_to_json\<close> with \<^verbatim>\<open>raw: true\<close> gives strings, numbers, booleans and
  \<^verbatim>\<open>null\<close>) and the parsed JSON of \<^verbatim>\<open>in-cities.json\<close> (any JSON value; a missing
  property reads as \<^verbatim>\<open>undefined\<close>).

  A string is the list of its UTF-16 code units, each a natural number (below 65536 in
  a string of the program; the functions are defined on every list). \<open>str\<close> gives the
  string of a literal of basic Latin characters. A number is represented by the text
  that \<^verbatim>\<open>String(n)\<close> gives for it (\<^verbatim>\<open>2021\<close>, \<^verbatim>\<open>17.385\<close>, \<^verbatim>\<open>NaN\<close>; both zeros
  are \<^verbatim>\<open>0\<close>), so that equality of representations is the equality a \<^verbatim>\<open>Set\<close> uses
  and no floating-point arithmetic is needed. An object is the list of its own
  properties, under distinct names.
\<close>

type_synonym jstring = "nat list"

definition str :: "string \<Rightarrow> jstring" where
  "str s = map of_char s"

datatype jsval =
    JUndefined
  | JNull
  | JBool bool
  | JNum jstring
  | JStr jstring
  | JArr "jsval list"
  | JObj "(jstring \<times> jsval) list"

datatype error = TypeError | SyntaxError | Error string

text \<open>Truthiness, as \<^verbatim>\<open>if (v)\<close>, \<^verbatim>\<open>v || w\<close> and \<^verbatim>\<open>!v\<close> test it.\<close>

fun truthy :: "jsval \<Rightarrow> bool" where
  "truthy JUndefined = False"
| "truthy JNull = False"
| "truthy (JBool b) = b"
| "truthy (JNum n) = (n \<noteq> str ''0'' \<and> n \<noteq> str ''NaN'')"
| "truthy (JStr s) = (s \<noteq> [])"
| "truthy (JArr xs) = True"
| "truthy (JObj kvs) = True"

text \<open>\<^verbatim>\<open>a || b\<close>\<close>

definition js_or :: "jsval \<Rightarrow> jsval \<Rightarrow> jsval" where
  "js_or a b = (if truthy a then a else b)"

text \<open>
  \<^verbatim>\<open>c.name\<close> for the property names the program reads (\<^verbatim>\<open>city\<close>, \<^verbatim>\<open>lat\<close>,
  \<^verbatim>\<open>lng\<close>, \<^verbatim>\<open>admin_name\<close>, \<^verbatim>\<open>state\<close>, \<^verbatim>\<open>cities\<close>): reading a property of
  \<^verbatim>\<open>null\<close> or \<^verbatim>\<open>undefined\<close> throws, an object gives its own property or
  \<^verbatim>\<open>undefined\<close>, and arrays and primitives have none of these names.
\<close>

fun get_prop :: "jsval \<Rightarrow> jstring \<Rightarrow> error + jsval" where
  "get_prop JUndefined name = Inl TypeError"
| "get_prop JNull name = Inl TypeError"
| "get_prop (JObj kvs) name = Inr (case map_of kvs name of None \<Rightarrow> JUndefined | Some v \<Rightarrow> v)"
| "get_prop v name = Inr JUndefined"

section \<open>Strings\<close>

text \<open>
  The code units that \<^verbatim>\<open>\s\<close> matches and \<^verbatim>\<open>trim\<close> removes: the white space and
  the line terminators of the language (tab, line feed, vertical tab, form feed,
  carriage return, space, no-break space, the other space separators of Unicode, line
  and paragraph separator, and the byte order mark).
\<close>

definition white_space :: "nat \<Rightarrow> bool" where
  "white_space c =
     (c \<in> {0x9, 0xA, 0xB, 0xC, 0xD, 0x20, 0xA0, 0x1680, 0x2028, 0x2029, 0x202F, 0x205F,
            0x3000, 0xFEFF}
      \<or> (0x2000 \<le> c \<and> c \<le> 0x200A))"

text \<open>
  \<^verbatim>\<open>toLowerCase\<close> converts the string to code points, maps them to lower case by
  the default case conversion of Unicode, and converts back. The conversion reads three
  tables of the Unicode Character Database, which is not part of the program and is a
  parameter here: the lower-case mapping of a code point (the empty list for a code
  point that has none and stays as it is), and the properties Cased and Case_Ignorable.
  Every function that lowers a string takes the tables as its first argument, and every
  property below is proved for all tables; the examples use an excerpt.
\<close>

record unicode =
  lower_map :: "nat \<Rightarrow> nat list"
  cased :: "nat \<Rightarrow> bool"
  case_ignorable :: "nat \<Rightarrow> bool"

definition high_surrogate :: "nat \<Rightarrow> bool" where
  "high_surrogate c = (0xD800 \<le> c \<and> c \<le> 0xDBFF)"

definition low_surrogate :: "nat \<Rightarrow> bool" where
  "low_surrogate c = (0xDC00 \<le> c \<and> c \<le> 0xDFFF)"

text \<open>
  The code points of a string: a high surrogate followed by a low one is one code
  point, every other code unit is a code point by itself.
\<close>

fun code_points :: "jstring \<Rightarrow> nat list" where
  "code_points (h # l # cs) =
     (if high_surrogate h \<and> low_surrogate l
      then (0x10000 + (h - 0xD800) * 0x400 + (l - 0xDC00)) # code_points cs
      else h # code_points (l # cs))"
| "code_points cs = cs"

text \<open>The code units of a code point.\<close>

definition code_units :: "nat \<Rightarrow> jstring" where
  "code_units p =
     (if 0x10000 \<le> p
      then [0xD800 + (p - 0x10000) div 0x400, 0xDC00 + (p - 0x10000) mod 0x400]
      else [p])"

text \<open>
  The one mapping that depends on the context: a capital sigma (\<open>0x3A3\<close>) becomes the
  final sigma (\<open>0x3C2\<close>) when a cased letter stands before it, with nothing but
  case-ignorable code points between, and no cased letter stands after it in that way.
  \<open>near_cased\<close> walks away from the sigma, over the code points before it (nearest
  first) or after it.
\<close>

fun near_cased :: "unicode \<Rightarrow> nat list \<Rightarrow> bool" where
  "near_cased u [] = False"
| "near_cased u (p # ps) = (cased u p \<or> (case_ignorable u p \<and> near_cased u ps))"

definition lower_point :: "unicode \<Rightarrow> nat \<Rightarrow> nat list" where
  "lower_point u p = (if lower_map u p = [] then [p] else lower_map u p)"

fun lower_points :: "unicode \<Rightarrow> nat list \<Rightarrow> nat list \<Rightarrow> nat list" where
  "lower_points u before [] = []"
| "lower_points u before (p # after) =
     (if p = 0x3A3 \<and> near_cased u before \<and> \<not> near_cased u after then [0x3C2]
      else lower_point u p)
     @ lower_points u (p # before) after"

definition from_code_points :: "nat list \<Rightarrow> jstring" where
  "from_code_points ps = concat (map code_units ps)"

definition toLowerCase :: "unicode \<Rightarrow> jstring \<Rightarrow> jstring" where
  "toLowerCase u s = from_code_points (lower_points u [] (code_points s))"

text \<open>\<^verbatim>\<open>s.replace(/\s+/g, '')\<close>: every run of white space is deleted.\<close>

definition strip_spaces :: "jstring \<Rightarrow> jstring" where
  "strip_spaces s = filter (\<lambda>c. \<not> white_space c) s"

text \<open>\<^verbatim>\<open>s.trim()\<close>\<close>

definition trim :: "jstring \<Rightarrow> jstring" where
  "trim s = rev (dropWhile white_space (rev (dropWhile white_space s)))"

text \<open>\<^verbatim>\<open>s.includes(q)\<close>: \<^verbatim>\<open>q\<close> occurs in \<^verbatim>\<open>s\<close> as a contiguous run.\<close>

fun js_includes :: "jstring \<Rightarrow> jstring \<Rightarrow> bool" where
  "js_includes [] q = (q = [])"
| "js_includes (c # cs) q = (prefix q (c # cs) \<or> js_includes cs q)"

section \<open>Normalization\<close>

text \<open>
  \<^verbatim>\<open>v.toLowerCase()\<close> on a value: only a string has the method. On a number, a
  boolean, an array or an object (whose own properties are data, never functions) the
  call throws a TypeError.
\<close>

fun call_toLowerCase :: "unicode \<Rightarrow> jsval \<Rightarrow> error + jstring" where
  "call_toLowerCase u (JStr t) = Inr (toLowerCase u t)"
| "call_toLowerCase u v = Inl TypeError"

text \<open>
  \<^verbatim>\<open>const normalize = s => (s || '').toLowerCase().replace(/\s+/g, '');\<close>
  (named \<open>normalize_js\<close> here, with the tables as its first argument).

  A falsy argument is replaced by the empty string; a truthy argument that is not a
  string makes the call throw.
\<close>

definition normalize_js :: "unicode \<Rightarrow> jsval \<Rightarrow> error + jstring" where
  "normalize_js u s =
     (case call_toLowerCase u (js_or s (JStr [])) of
        Inl e \<Rightarrow> Inl e
      | Inr t \<Rightarrow> Inr (strip_spaces t))"

section \<open>Rows and the filter selection\<close>

text \<open>
  A row as \<^verbatim>\<open>loadExcelRows\<close> builds it: eight fields, each the cell's value or
  \<^verbatim>\<open>null\<close>.
\<close>

record row =
  City :: jsval
  State :: jsval
  Company :: jsval
  Category :: jsval
  Status :: jsval
  Year :: jsval
  PoC :: jsval
  GP :: jsval

text \<open>
  The \<^verbatim>\<open>value\<close> of the seven select elements and of the search box, which
  \<^verbatim>\<open>applyFilters\<close> reads from the document. Each is a string.
\<close>

record selection =
  statusFilter :: jstring
  categoryFilter :: jstring
  cityFilter :: jstring
  stateFilter :: jstring
  pocFilter :: jstring
  gpFilter :: jstring
  yocFilter :: jstring
  search :: jstring

text \<open>\<^verbatim>\<open>xs.join(sep)\<close> on strings.\<close>

fun join :: "jstring \<Rightarrow> jstring list \<Rightarrow> jstring" where
  "join sep [] = []"
| "join sep [x] = x"
| "join sep (x # y # ys) = x @ sep @ join sep (y # ys)"

text \<open>
  \<^verbatim>\<open>String(v)\<close>. An array joins the strings of its elements with commas, \<^verbatim>\<open>null\<close>
  and \<^verbatim>\<open>undefined\<close> elements giving the empty string.
\<close>

fun js_String :: "jsval \<Rightarrow> jstring" where
  "js_String JUndefined = str ''undefined''"
| "js_String JNull = str ''null''"
| "js_String (JBool b) = (if b then str ''true'' else str ''false'')"
| "js_String (JNum n) = n"
| "js_String (JStr s) = s"
| "js_String (JArr xs) =
     join (str '','') (map (\<lambda>x. if x = JUndefined \<or> x = JNull then [] else js_String x) xs)"
| "js_String (JObj kvs) = str ''[object Object]''"

section \<open>The filter engine\<close>

text \<open>
  The callback of \<^verbatim>\<open>rows.filter\<close> in \<^verbatim>\<open>applyFilters\<close>, with the eight constants
  computed before it. \<^verbatim>\<open>v !== s\<close> against a string \<^verbatim>\<open>s\<close> is false only for the
  string \<^verbatim>\<open>s\<close> itself. The last test calls \<^verbatim>\<open>toLowerCase\<close> on
  \<^verbatim>\<open>r.Company || ''\<close> and throws where that is not a string; it is reached only when
  the search term is active and the seven tests before it have let the row through.
\<close>

definition filter_callback :: "unicode \<Rightarrow> selection \<Rightarrow> row \<Rightarrow> error + bool" where
  "filter_callback u sel r =
     (let s = statusFilter sel;
          c = categoryFilter sel;
          city = cityFilter sel;
          st = stateFilter sel;
          poc = pocFilter sel;
          gp = gpFilter sel;
          y = yocFilter sel;
          q = toLowerCase u (trim (search sel))
      in if s \<noteq> [] \<and> Status r \<noteq> JStr s then Inr False
         else if c \<noteq> [] \<and> Category r \<noteq> JStr c then Inr False
         else if city \<noteq> [] \<and> City r \<noteq> JStr city then Inr False
         else if st \<noteq> [] \<and> js_or (State r) (JStr []) \<noteq> JStr st then Inr False
         else if poc \<noteq> [] \<and> js_or (PoC r) (JStr []) \<noteq> JStr poc then Inr False
         else if gp \<noteq> [] \<and> js_or (GP r) (JStr []) \<noteq> JStr gp then Inr False
         else if y \<noteq> [] \<and> js_String (Year r) \<noteq> y then Inr False
         else if q \<noteq> [] then
           (case call_toLowerCase u (js_or (Company r) (JStr [])) of
              Inl e \<Rightarrow> Inl e
            | Inr name \<Rightarrow> if \<not> js_includes name q then Inr False else Inr True)
         else Inr True)"

text \<open>
  \<^verbatim>\<open>xs.filter(f)\<close> with a callback that may throw: the elements are visited in order
  and the first exception ends the call.
\<close>

fun js_filter :: "('a \<Rightarrow> error + bool) \<Rightarrow> 'a list \<Rightarrow> error + 'a list" where
  "js_filter f [] = Inr []"
| "js_filter f (x # xs) =
     (case f x of
        Inl e \<Rightarrow> Inl e
      | Inr b \<Rightarrow>
          (case js_filter f xs of
             Inl e \<Rightarrow> Inl e
           | Inr ys \<Rightarrow> Inr (if b then x # ys else ys)))"

definition applyFilters :: "unicode \<Rightarrow> row list \<Rightarrow> selection \<Rightarrow> error + row list" where
  "applyFilters u rows sel = js_filter (filter_callback u sel) rows"

section \<open>The city index\<close>

text \<open>
  The unary plus of \<^verbatim>\<open>+c.lat\<close> is kept unevaluated: no property below reads the
  number it gives.
\<close>

datatype number = ToNumber jsval

record entry =
  lat :: number
  lon :: number
  state :: jsval

text \<open>
  \<^verbatim>\<open>CITY_INDEX\<close> is a \<^verbatim>\<open>Map\<close>: the list of its entries in insertion order, with
  distinct keys. \<^verbatim>\<open>set\<close> replaces the value of a key that is present, in place, and
  appends a new key; \<^verbatim>\<open>get\<close> gives the value or \<^verbatim>\<open>undefined\<close> (here
  \<^const>\<open>None\<close>); \<^verbatim>\<open>size\<close> is the length.
\<close>

type_synonym index = "(jstring \<times> entry) list"

definition map_set :: "index \<Rightarrow> jstring \<Rightarrow> entry \<Rightarrow> index" where
  "map_set idx k v = AList.update k v idx"

definition map_get :: "index \<Rightarrow> jstring \<Rightarrow> entry option" where
  "map_get idx k = map_of idx k"

record globals =
  CITY_INDEX :: index
  CITY_INDEX_READY :: bool

definition initial :: globals where
  "initial = \<lparr>CITY_INDEX = [], CITY_INDEX_READY = False\<rparr>"

text \<open>
  \<^verbatim>\<open>xs.forEach(f)\<close> with a callback that updates a state and may throw. Each callback
  below throws before it changes anything, so the state at an exception is the state
  that the elements before have left.
\<close>

fun forEach :: "('a \<Rightarrow> 's \<Rightarrow> error + 's) \<Rightarrow> 'a list \<Rightarrow> 's \<Rightarrow> error option \<times> 's" where
  "forEach f [] s = (None, s)"
| "forEach f (x # xs) s =
     (case f x s of
        Inl e \<Rightarrow> (Some e, s)
      | Inr s' \<Rightarrow> forEach f xs s')"

text \<open>
  The callback of the primary loop:
  \<^verbatim>\<open>CITY_INDEX.set(normalize(c.city), { lat: +c.lat, lon: +c.lng, state: c.admin_name || c.state || null })\<close>.
  The key \<^verbatim>\<open>normalize(c.city)\<close> is computed first, so a record that is
  \<^verbatim>\<open>null\<close>, or whose city is a truthy non-string, throws before the index changes.
\<close>

definition city_key :: "unicode \<Rightarrow> jsval \<Rightarrow> error + jstring" where
  "city_key u c =
     (case get_prop c (str ''city'') of
        Inl e \<Rightarrow> Inl e
      | Inr city \<Rightarrow> normalize_js u city)"

definition primary_record :: "unicode \<Rightarrow> jsval \<Rightarrow> index \<Rightarrow> error + index" where
  "primary_record u c idx =
     (case city_key u c of Inl e \<Rightarrow> Inl e | Inr key \<Rightarrow>
     (case get_prop c (str ''lat'') of Inl e \<Rightarrow> Inl e | Inr la \<Rightarrow>
     (case get_prop c (str ''lng'') of Inl e \<Rightarrow> Inl e | Inr lo \<Rightarrow>
     (case get_prop c (str ''admin_name'') of Inl e \<Rightarrow> Inl e | Inr adm \<Rightarrow>
     (case get_prop c (str ''state'') of Inl e \<Rightarrow> Inl e | Inr sta \<Rightarrow>
        Inr (map_set idx key
               \<lparr>lat = ToNumber la, lon = ToNumber lo,
                state = js_or (js_or adm sta) JNull\<rparr>))))))"

text \<open>
  What the \<^verbatim>\<open>await\<close>s of the \<^verbatim>\<open>try\<close> block can give: \<^verbatim>\<open>fetch\<close> rejects, the
  response is not \<^verbatim>\<open>ok\<close>, the body is not JSON, or the body parses to a value.
\<close>

datatype fetch_outcome = Rejected | Not_ok | Unparsable | Parsed jsval

text \<open>\<^verbatim>\<open>Array.isArray(obj) ? obj : (obj.cities || [])\<close>\<close>

definition cities_of :: "jsval \<Rightarrow> error + jsval" where
  "cities_of obj =
     (case obj of
        JArr cs \<Rightarrow> Inr obj
      | _ \<Rightarrow> (case get_prop obj (str ''cities'') of
                Inl e \<Rightarrow> Inl e
              | Inr v \<Rightarrow> Inr (js_or v (JArr []))))"

text \<open>
  The \<^verbatim>\<open>try\<close> block. It gives the exception that leaves it, if any, and the
  globals as they are at that moment. \<^verbatim>\<open>arr.forEach\<close> on a value that is not an
  array throws.
\<close>

definition try_block :: "unicode \<Rightarrow> fetch_outcome \<Rightarrow> globals \<Rightarrow> error option \<times> globals" where
  "try_block u resp g =
     (case resp of
        Rejected \<Rightarrow> (Some TypeError, g)
      | Not_ok \<Rightarrow> (Some (Error ''missing cities file''), g)
      | Unparsable \<Rightarrow> (Some SyntaxError, g)
      | Parsed obj \<Rightarrow>
          (case cities_of obj of
             Inl e \<Rightarrow> (Some e, g)
           | Inr (JArr cs) \<Rightarrow>
               (case forEach (primary_record u) cs (CITY_INDEX g) of
                  (Some e, idx) \<Rightarrow> (Some e, g\<lparr>CITY_INDEX := idx\<rparr>)
                | (None, idx) \<Rightarrow> (None, g\<lparr>CITY_INDEX := idx, CITY_INDEX_READY := True\<rparr>))
           | Inr _ \<Rightarrow> (Some TypeError, g)))"

text \<open>\<^verbatim>\<open>const [lat, lon, st] = xs\<close>: a missing position reads as \<^verbatim>\<open>undefined\<close>.\<close>

definition element :: "jsval list \<Rightarrow> nat \<Rightarrow> jsval" where
  "element xs i = (if i < length xs then xs ! i else JUndefined)"

text \<open>
  The callback of the fallback loop, on one pair of \<^verbatim>\<open>Object.entries(fallback)\<close>:
  \<^verbatim>\<open>CITY_INDEX.set(normalize(city), { lat: +lat, lon: +lon, state: st || null })\<close>.
  The table maps a city name to an array, as \<^verbatim>\<open>CITY_COORDS\<close> of
  \<^verbatim>\<open>data.template.js\<close> does.
\<close>

definition fallback_record :: "unicode \<Rightarrow> jstring \<times> jsval list \<Rightarrow> index \<Rightarrow> error + index" where
  "fallback_record u kv idx =
     (case normalize_js u (JStr (fst kv)) of
        Inl e \<Rightarrow> Inl e
      | Inr key \<Rightarrow>
          Inr (map_set idx key
                 \<lparr>lat = ToNumber (element (snd kv) 0), lon = ToNumber (element (snd kv) 1),
                  state = js_or (element (snd kv) 2) JNull\<rparr>))"

text \<open>
  \<^verbatim>\<open>loadCityIndex\<close>, from the outcome of the fetch, the entries of
  \<^verbatim>\<open>window.CITY_COORDS\<close> (\<^const>\<open>None\<close> when it is undefined, so that
  \<^verbatim>\<open>window.CITY_COORDS || {}\<close> has no entry) and the globals before the call.
  The \<^verbatim>\<open>catch\<close> block runs on any exception of the \<^verbatim>\<open>try\<close> block, on the
  index as that block has left it. The result is the exception that
  leaves the function, if any, and the globals after it.
\<close>

definition fallback_table ::
  "(jstring \<times> jsval list) list option \<Rightarrow> (jstring \<times> jsval list) list" where
  "fallback_table coords = (case coords of None \<Rightarrow> [] | Some t \<Rightarrow> t)"

definition loadCityIndex ::
  "unicode \<Rightarrow> fetch_outcome \<Rightarrow> (jstring \<times> jsval list) list option \<Rightarrow> globals
     \<Rightarrow> error option \<times> globals" where
  "loadCityIndex u resp coords g =
     (case try_block u resp g of
        (None, g') \<Rightarrow> (None, g')
      | (Some e, g') \<Rightarrow>
          (let fallback = fallback_table coords
           in case forEach (fallback_record u) fallback (CITY_INDEX g') of
                (Some e', idx) \<Rightarrow> (Some e', g'\<lparr>CITY_INDEX := idx\<rparr>)
              | (None, idx) \<Rightarrow>
                  (None, g'\<lparr>CITY_INDEX := idx, CITY_INDEX_READY := (0 < length idx)\<rparr>)))"

text \<open>\<^verbatim>\<open>function resolveCity(city) { return CITY_INDEX.get(normalize(city)); }\<close>\<close>

definition resolveCity :: "unicode \<Rightarrow> index \<Rightarrow> jsval \<Rightarrow> error + entry option" where
  "resolveCity u idx city =
     (case normalize_js u city of
        Inl e \<Rightarrow> Inl e
      | Inr key \<Rightarrow> Inr (map_get idx key))"

section \<open>The facet builder\<close>

text \<open>
  \<^verbatim>\<open>set.add(v)\<close> on a \<^verbatim>\<open>Set\<close> kept as the list of its elements in insertion
  order.
\<close>

definition set_add :: "jsval \<Rightarrow> jsval list \<Rightarrow> jsval list" where
  "set_add v xs = (if v \<in> set xs then xs else xs @ [v])"

record colVals =
  Status_vals :: "jsval list"
  Category_vals :: "jsval list"
  City_vals :: "jsval list"
  State_vals :: "jsval list"
  PoC_vals :: "jsval list"
  GP_vals :: "jsval list"
  Year_vals :: "jsval list"

text \<open>The callback of \<^verbatim>\<open>rows.forEach\<close> in \<^verbatim>\<open>populateFilters\<close>.\<close>

definition collect :: "row \<Rightarrow> colVals \<Rightarrow> colVals" where
  "collect r cv =
     \<lparr>Status_vals = (if truthy (Status r) then set_add (Status r) (Status_vals cv) else Status_vals cv),
      Category_vals = (if truthy (Category r) then set_add (Category r) (Category_vals cv) else Category_vals cv),
      City_vals = (if truthy (City r) then set_add (City r) (City_vals cv) else City_vals cv),
      State_vals = (if truthy (State r) then set_add (State r) (State_vals cv) else State_vals cv),
      PoC_vals = (if truthy (PoC r) then set_add (PoC r) (PoC_vals cv) else PoC_vals cv),
      GP_vals = (if truthy (GP r) then set_add (GP r) (GP_vals cv) else GP_vals cv),
      Year_vals = (if Year r \<noteq> JNull \<and> Year r \<noteq> JUndefined \<and> Year r \<noteq> JStr []
                   then set_add (Year r) (Year_vals cv) else Year_vals cv)\<rparr>"

text \<open>
  \<^verbatim>\<open>populateFilters\<close> up to the seven sets it hands to \<^verbatim>\<open>fillSelect\<close>, which
  sorts each one and writes it into the document.
\<close>

definition populateFilters :: "row list \<Rightarrow> colVals" where
  "populateFilters rows =
     fold collect rows
       \<lparr>Status_vals = [], Category_vals = [], City_vals = [], State_vals = [],
        PoC_vals = [], GP_vals = [], Year_vals = []\<rparr>"

section \<open>The marker renderer\<close>

text \<open>
  A marker of the layer: the position it is drawn at, and the row and the index entry
  its colour and popup are computed from. The map widget is taken to accept every
  marker.
\<close>

record marker =
  latlng :: "number \<times> number"
  source_row :: row
  source_coord :: entry

definition circleMarker :: "row \<Rightarrow> entry \<Rightarrow> marker" where
  "circleMarker r coord = \<lparr>latlng = (lat coord, lon coord), source_row = r, source_coord = coord\<rparr>"

record rendering =
  markersLayer :: "marker list"
  missing :: nat
  plotted :: nat

text \<open>The callback of \<^verbatim>\<open>filtered.forEach\<close> in \<^verbatim>\<open>renderMarkers\<close>.\<close>

definition render_row :: "unicode \<Rightarrow> index \<Rightarrow> row \<Rightarrow> rendering \<Rightarrow> error + rendering" where
  "render_row u idx r st =
     (case resolveCity u idx (City r) of
        Inl e \<Rightarrow> Inl e
      | Inr None \<Rightarrow> Inr (st\<lparr>missing := missing st + 1\<rparr>)
      | Inr (Some coord) \<Rightarrow>
          Inr (st\<lparr>markersLayer := markersLayer st @ [circleMarker r coord],
                  plotted := plotted st + 1\<rparr>))"

text \<open>
  \<^verbatim>\<open>renderMarkers\<close>: the layer is cleared, the rows are filtered, and each filtered
  row is resolved. The result is the pair \<^verbatim>\<open>(plotted, missing)\<close> that is logged, or
  the exception that stopped the call, together with the layer as the call leaves it.
\<close>

definition renderMarkers ::
  "unicode \<Rightarrow> index \<Rightarrow> selection \<Rightarrow> row list \<Rightarrow> (error + nat \<times> nat) \<times> marker list" where
  "renderMarkers u idx sel rows =
     (case applyFilters u rows sel of
        Inl e \<Rightarrow> (Inl e, [])
      | Inr filtered \<Rightarrow>
          (case forEach (render_row u idx) filtered \<lparr>markersLayer = [], missing = 0, plotted = 0\<rparr> of
             (Some e, st) \<Rightarrow> (Inl e, markersLayer st)
           | (None, st) \<Rightarrow> (Inr (plotted st, missing st), markersLayer st)))"

section \<open>Notions of the specification\<close>

text \<open>The selection with every control empty.\<close>

definition emptySelection :: selection where
  "emptySelection =
     \<lparr>statusFilter = [], categoryFilter = [], cityFilter = [], stateFilter = [],
      pocFilter = [], gpFilter = [], yocFilter = [], search = []\<rparr>"

text \<open>The eight criteria of a selection, to read and to set one of them.\<close>

datatype criterion =
  By_status | By_category | By_city | By_state | By_poc | By_gp | By_year | By_search

fun criterion_value :: "criterion \<Rightarrow> selection \<Rightarrow> jstring" where
  "criterion_value By_status sel = statusFilter sel"
| "criterion_value By_category sel = categoryFilter sel"
| "criterion_value By_city sel = cityFilter sel"
| "criterion_value By_state sel = stateFilter sel"
| "criterion_value By_poc sel = pocFilter sel"
| "criterion_value By_gp sel = gpFilter sel"
| "criterion_value By_year sel = yocFilter sel"
| "criterion_value By_search sel = search sel"

fun with_criterion :: "criterion \<Rightarrow> jstring \<Rightarrow> selection \<Rightarrow> selection" where
  "with_criterion By_status v sel = sel\<lparr>statusFilter := v\<rparr>"
| "with_criterion By_category v sel = sel\<lparr>categoryFilter := v\<rparr>"
| "with_criterion By_city v sel = sel\<lparr>cityFilter := v\<rparr>"
| "with_criterion By_state v sel = sel\<lparr>stateFilter := v\<rparr>"
| "with_criterion By_poc v sel = sel\<lparr>pocFilter := v\<rparr>"
| "with_criterion By_gp v sel = sel\<lparr>gpFilter := v\<rparr>"
| "with_criterion By_year v sel = sel\<lparr>yocFilter := v\<rparr>"
| "with_criterion By_search v sel = sel\<lparr>search := v\<rparr>"

text \<open>
  A value is textual when it is a string or falsy (\<^verbatim>\<open>null\<close>, \<^verbatim>\<open>undefined\<close>,
  \<^verbatim>\<open>false\<close>, zero, \<^verbatim>\<open>NaN\<close>): these are the values \<^verbatim>\<open>v\<close> on which
  \<^verbatim>\<open>(v || '').toLowerCase()\<close> does not throw.
\<close>

fun textual :: "jsval \<Rightarrow> bool" where
  "textual (JStr s) = True"
| "textual v = (\<not> truthy v)"

text \<open>
  The specification's case-insensitive substring: \<open>t\<close> occurs in \<open>s\<close> as a contiguous
  run once the case of the letters is ignored.
\<close>

definition ci_substring :: "unicode \<Rightarrow> jstring \<Rightarrow> jstring \<Rightarrow> bool" where
  "ci_substring u t s = sublist (toLowerCase u t) (toLowerCase u s)"

text \<open>
  An excerpt of the Unicode tables for the examples: the basic Latin and Latin-1
  letters, the Greek capital and small letters, and the Deseret letters beyond the
  basic plane.
\<close>

definition ucd_excerpt :: unicode where
  "ucd_excerpt =
     \<lparr>lower_map = (\<lambda>p.
        if (0x41 \<le> p \<and> p \<le> 0x5A) \<or> (0xC0 \<le> p \<and> p \<le> 0xDE \<and> p \<noteq> 0xD7)
           \<or> (0x391 \<le> p \<and> p \<le> 0x3A9 \<and> p \<noteq> 0x3A2)
        then [p + 0x20]
        else if 0x10400 \<le> p \<and> p \<le> 0x10427 then [p + 0x28]
        else []),
      cased = (\<lambda>p.
        (0x41 \<le> p \<and> p \<le> 0x5A) \<or> (0x61 \<le> p \<and> p \<le> 0x7A)
        \<or> p \<in> {0xAA, 0xB5, 0xBA}
        \<or> (0xC0 \<le> p \<and> p \<le> 0xFF \<and> p \<noteq> 0xD7 \<and> p \<noteq> 0xF7)
        \<or> (0x391 \<le> p \<and> p \<le> 0x3A9 \<and> p \<noteq> 0x3A2) \<or> (0x3B1 \<le> p \<and> p \<le> 0x3C9)
        \<or> (0x10400 \<le> p \<and> p \<le> 0x1044F)),
      case_ignorable = (\<lambda>p.
        p \<in> {0x27, 0x2E, 0x3A, 0x5E, 0x60, 0xA8, 0xAD, 0xAF, 0xB4, 0xB7, 0xB8, 0x2019})\<rparr>"

text \<open>
  The strings on which normalization is well behaved, by their code points. A scalar
  is a code point that is no surrogate. A code point is settled when it is a scalar
  other than the capital sigma and has no lower-case mapping: lowering leaves it alone
  in every context. A code point is steady when it is a scalar and every form that
  lowering can give it (its mapping, or itself, or the final sigma for a capital
  sigma) is settled. It is context-free when it is no capital sigma and its lower-case
  form is white space exactly when it is. Under the tables of Unicode every scalar is
  steady, and every one but the capital sigma is context-free; the strings of scalars
  are the well-formed ones, without lone surrogates.
\<close>

definition scalar :: "nat \<Rightarrow> bool" where
  "scalar p = (p < 0xD800 \<or> (0xDFFF < p \<and> p < 0x110000))"

definition settled :: "unicode \<Rightarrow> nat \<Rightarrow> bool" where
  "settled u p = (scalar p \<and> p \<noteq> 0x3A3 \<and> lower_map u p = [])"

definition steady :: "unicode \<Rightarrow> nat \<Rightarrow> bool" where
  "steady u p =
     (scalar p \<and>
      list_all (settled u) (if p = 0x3A3 then 0x3C2 # lower_point u p else lower_point u p))"

definition context_free :: "unicode \<Rightarrow> nat \<Rightarrow> bool" where
  "context_free u p =
     (p \<noteq> 0x3A3 \<and> list_all (\<lambda>q. white_space q = white_space p) (lower_point u p))"

text \<open>Rows for the examples: the row without any value, and those of the scenarios.\<close>

definition blank_row :: row where
  "blank_row =
     \<lparr>City = JNull, State = JNull, Company = JNull, Category = JNull,
      Status = JNull, Year = JNull, PoC = JNull, GP = JNull\<rparr>"

definition pune_row :: row where
  "pune_row = blank_row\<lparr>City := JStr (str ''Pune''), Company := JStr (str ''Pune Traders''),
     Status := JStr (str ''Completed'')\<rparr>"

definition unknownville_row :: row where
  "unknownville_row = blank_row\<lparr>City := JStr (str ''Unknownville''), Company := JStr (str ''Surat Mills''),
     Status := JStr (str ''Hold'')\<rparr>"

text \<open>
  What the specification asks of the facet set of one field: it holds neither
  \<^verbatim>\<open>null\<close> nor the empty string, it holds no value twice, and each of its values
  is the value of that field in some row.
\<close>

definition facet_ok :: "row list \<Rightarrow> (row \<Rightarrow> jsval) \<Rightarrow> jsval list \<Rightarrow> bool" where
  "facet_ok rows field vals \<longleftrightarrow>
     JNull \<notin> set vals \<and> JStr [] \<notin> set vals \<and> distinct vals \<and>
     (\<forall>v\<in>set vals. \<exists>r\<in>set rows. field r = v)"

text \<open>
  The records that the primary loop is given: the elements of the array that the
  parsed body is or wraps, none when there is no such array.
\<close>

definition primary_records :: "fetch_outcome \<Rightarrow> jsval list" where
  "primary_records resp =
     (case resp of
        Parsed obj \<Rightarrow> (case cities_of obj of Inr (JArr cs) \<Rightarrow> cs | _ \<Rightarrow> [])
      | _ \<Rightarrow> [])"

text \<open>
  An index comes from the primary resource when each of its entries is the entry that
  the primary callback stores for one of the records, and from the fallback table when
  each of its entries is the entry that the fallback callback stores for one of the
  pairs of the table.
\<close>

definition from_primary :: "unicode \<Rightarrow> jsval list \<Rightarrow> index \<Rightarrow> bool" where
  "from_primary u cs idx = list_all (\<lambda>p. list_ex (\<lambda>c. primary_record u c [] = Inr [p]) cs) idx"

definition from_fallback :: "unicode \<Rightarrow> (jstring \<times> jsval list) list \<Rightarrow> index \<Rightarrow> bool" where
  "from_fallback u t idx = list_all (\<lambda>p. list_ex (\<lambda>kv. fallback_record u kv [] = Inr [p]) t) idx"

text \<open>Source data for the examples.\<close>

definition delhi_record :: jsval where
  "delhi_record = JObj [(str ''city'', JStr (str ''Delhi'')), (str ''lat'', JNum (str ''28.6139'')),
     (str ''lng'', JNum (str ''77.209'')), (str ''admin_name'', JStr (str ''Delhi''))]"

definition pune_fallback :: "jstring \<times> jsval list" where
  "pune_fallback =
     (str ''Pune'', [JNum (str ''18.5204''), JNum (str ''73.8567''), JStr (str ''Maharashtra'')])"

definition blank_city_record :: jsval where
  "blank_city_record =
     JObj [(str ''city'', JStr (str '' '')), (str ''lat'', JNum (str ''1'')),
           (str ''lng'', JNum (str ''2''))]"

definition pune_entry :: entry where
  "pune_entry = \<lparr>lat = ToNumber (JNum (str ''18.5204'')), lon = ToNumber (JNum (str ''73.8567'')),
     state = JStr (str ''Maharashtra'')\<rparr>"

text \<open>The marker that a row contributes: one when its city resolves, none otherwise.\<close>

definition marker_of :: "unicode \<Rightarrow> index \<Rightarrow> row \<Rightarrow> marker option" where
  "marker_of u idx r =
     (case resolveCity u idx (City r) of
        Inr (Some coord) \<Rightarrow> Some (circleMarker r coord)
      | _ \<Rightarrow> None)"

section \<open>Properties of the string functions\<close>






lemma toLowerCase_Nil: "toLowerCase u [] = []"
  by (simp add: toLowerCase_def from_code_points_def)


lemma strip_spaces_idem: "strip_spaces (strip_spaces s) = strip_spaces s"
  by (simp add: strip_spaces_def)


section \<open>Properties of the filter engine\<close>

lemma trim_Nil: "trim [] = []"
  by (simp add: trim_def)

lemma js_filter_returns:
  "js_filter f xs = Inr ys \<Longrightarrow>
   ys = filter (\<lambda>x. f x = Inr True) xs \<and> (\<forall>x\<in>set xs. \<exists>b. f x = Inr b)"
  by (induction xs arbitrary: ys) (auto split: sum.splits if_splits)

lemma js_filter_total:
  "\<forall>x\<in>set xs. \<exists>b. f x = Inr b \<Longrightarrow>
   js_filter f xs = Inr (filter (\<lambda>x. f x = Inr True) xs)"
  by (induction xs) (auto split: sum.splits)

lemma subseq_filter_mono:
  "(\<And>x. x \<in> set xs \<Longrightarrow> P x \<Longrightarrow> Q x) \<Longrightarrow> subseq (filter P xs) (filter Q xs)"
  by (induction xs) auto

lemma filter_callback_empty: "filter_callback u emptySelection r = Inr True"
  by (simp add: filter_callback_def emptySelection_def trim_Nil toLowerCase_Nil)

text \<open>A row is kept exactly when every active criterion lets it through.\<close>

lemma filter_callback_True_iff:
  "filter_callback u sel r = Inr True \<longleftrightarrow>
     (statusFilter sel = [] \<or> Status r = JStr (statusFilter sel)) \<and>
     (categoryFilter sel = [] \<or> Category r = JStr (categoryFilter sel)) \<and>
     (cityFilter sel = [] \<or> City r = JStr (cityFilter sel)) \<and>
     (stateFilter sel = [] \<or> js_or (State r) (JStr []) = JStr (stateFilter sel)) \<and>
     (pocFilter sel = [] \<or> js_or (PoC r) (JStr []) = JStr (pocFilter sel)) \<and>
     (gpFilter sel = [] \<or> js_or (GP r) (JStr []) = JStr (gpFilter sel)) \<and>
     (yocFilter sel = [] \<or> js_String (Year r) = yocFilter sel) \<and>
     (toLowerCase u (trim (search sel)) = [] \<or>
      (\<exists>name. call_toLowerCase u (js_or (Company r) (JStr [])) = Inr name \<and>
              js_includes name (toLowerCase u (trim (search sel)))))"
  by (simp add: filter_callback_def Let_def split: sum.splits)

lemma filter_callback_mono:
  assumes "criterion_value k A = []"
    and "filter_callback u (with_criterion k v A) r = Inr True"
  shows "filter_callback u A r = Inr True"
  using assms
  by (cases k) (simp_all add: filter_callback_True_iff trim_Nil toLowerCase_Nil)

lemma call_toLowerCase_textual:
  "textual v \<Longrightarrow>
   call_toLowerCase u (js_or v (JStr [])) = Inr (case v of JStr s \<Rightarrow> toLowerCase u s | _ \<Rightarrow> [])"
  by (cases v) (auto simp: js_or_def toLowerCase_Nil)

lemma call_toLowerCase_not_textual:
  "\<not> textual v \<Longrightarrow> call_toLowerCase u (js_or v (JStr [])) = Inl TypeError"
  by (cases v) (auto simp: js_or_def)

text \<open>On a row whose company is textual the callback does not throw.\<close>

lemma filter_callback_textual:
  "textual (Company r) \<Longrightarrow>
   filter_callback u sel r = Inr
     ((statusFilter sel = [] \<or> Status r = JStr (statusFilter sel)) \<and>
      (categoryFilter sel = [] \<or> Category r = JStr (categoryFilter sel)) \<and>
      (cityFilter sel = [] \<or> City r = JStr (cityFilter sel)) \<and>
      (stateFilter sel = [] \<or> js_or (State r) (JStr []) = JStr (stateFilter sel)) \<and>
      (pocFilter sel = [] \<or> js_or (PoC r) (JStr []) = JStr (pocFilter sel)) \<and>
      (gpFilter sel = [] \<or> js_or (GP r) (JStr []) = JStr (gpFilter sel)) \<and>
      (yocFilter sel = [] \<or> js_String (Year r) = yocFilter sel) \<and>
      (toLowerCase u (trim (search sel)) = [] \<or>
       js_includes (case Company r of JStr s \<Rightarrow> toLowerCase u s | _ \<Rightarrow> [])
         (toLowerCase u (trim (search sel)))))"
  by (simp add: filter_callback_def Let_def call_toLowerCase_textual)

lemma filter_callback_returns:
  "textual (Company r) \<Longrightarrow> \<exists>b. filter_callback u sel r = Inr b"
  using filter_callback_textual by blast

lemma applyFilters_returns:
  assumes "\<forall>r\<in>set rows. textual (Company r)"
  shows "applyFilters u rows sel = Inr (filter (\<lambda>r. filter_callback u sel r = Inr True) rows)"
  unfolding applyFilters_def using assms
  by (intro js_filter_total) (simp add: filter_callback_returns)

text \<open>
  With an active search term, a row whose company is a truthy non-string and that
  passes the seven tests before makes the call throw.
\<close>

lemma applyFilters_throws:
  "applyFilters ucd_excerpt [blank_row\<lparr>Company := JNum (str ''360'')\<rparr>] (emptySelection\<lparr>search := str ''a''\<rparr>)
     = Inl TypeError"
  by code_simp



section \<open>The claims on the filter engine\<close>

text \<open>
  Claim C6. With every facet control empty and an empty search box, \<^verbatim>\<open>applyFilters\<close>
  returns the rows it was given: the same rows in the same order. It does so on every
  row sequence, whatever the values in the rows.
\<close>

theorem applyFilters_empty_selection: "applyFilters u rows emptySelection = Inr rows"
proof -
  have "\<forall>r\<in>set rows. \<exists>b. filter_callback u emptySelection r = Inr b"
    by (auto simp: filter_callback_empty)
  then show ?thesis
    unfolding applyFilters_def by (simp add: js_filter_total filter_callback_empty)
qed

text \<open>
  Claim C1. \<^verbatim>\<open>applyFilters\<close> is monotonic. Let criterion \<open>k\<close> be empty in the
  selection \<open>A\<close>, and let \<open>B\<close> be \<open>A\<close> with \<open>k\<close> set to a non-empty value \<open>v\<close>.
  Then, for every row sequence, the rows that \<^verbatim>\<open>applyFilters\<close> returns under \<open>B\<close>
  are a sub-sequence of those it returns under \<open>A\<close>: adding a constraint never adds a
  row. (A call returns unless the search term is active and it meets a row whose
  company is a truthy non-string, see \<open>applyFilters_returns\<close> and
  \<open>applyFilters_throws\<close>.)
\<close>

theorem applyFilters_monotonic:
  assumes "criterion_value k A = []" and "v \<noteq> []" and "B = with_criterion k v A"
    and "applyFilters u rows A = Inr xs" and "applyFilters u rows B = Inr ys"
  shows "subseq ys xs"
proof -
  have xs: "xs = filter (\<lambda>r. filter_callback u A r = Inr True) rows"
    using assms(4) js_filter_returns unfolding applyFilters_def by blast
  have ys: "ys = filter (\<lambda>r. filter_callback u B r = Inr True) rows"
    using assms(5) js_filter_returns unfolding applyFilters_def by blast
  show ?thesis
    unfolding xs ys
    by (rule subseq_filter_mono) (use assms(1,3) filter_callback_mono in blast)
qed

theorem applyFilters_monotonic_witness:
  "criterion_value By_status emptySelection = [] \<and> str ''Hold'' \<noteq> [] \<and>
   applyFilters ucd_excerpt [pune_row, unknownville_row] emptySelection
     = Inr [pune_row, unknownville_row] \<and>
   applyFilters ucd_excerpt [pune_row, unknownville_row] (with_criterion By_status (str ''Hold'') emptySelection)
     = Inr [unknownville_row] \<and>
   subseq [unknownville_row] [pune_row, unknownville_row]"
proof -
  have h1: "criterion_value By_status emptySelection = []"
    by (simp add: emptySelection_def)
  have h2: "str ''Hold'' \<noteq> []" by (simp add: str_def)
  have h4: "applyFilters ucd_excerpt [pune_row, unknownville_row] emptySelection
              = Inr [pune_row, unknownville_row]"
    by code_simp
  have h5: "applyFilters ucd_excerpt [pune_row, unknownville_row]
              (with_criterion By_status (str ''Hold'') emptySelection) = Inr [unknownville_row]"
    by code_simp
  from applyFilters_monotonic [OF h1 h2 refl h4 h5] h1 h2 h4 h5 show ?thesis by simp
qed




text \<open>
  Likewise a term with a leading space matches a company in which the term, space
  included, does not occur.
\<close>

lemma search_term_is_trimmed:
  "\<not> ci_substring ucd_excerpt (str '' pun'') (str ''Pune Traders'') \<and>
   applyFilters ucd_excerpt [pune_row] (emptySelection\<lparr>search := str '' pun''\<rparr>) = Inr [pune_row]"
  by code_simp

section \<open>Normalization: claim C9\<close>

lemma normalize_JStr: "normalize_js u (JStr s) = Inr (strip_spaces (toLowerCase u s))"
  by (cases "s = []") (simp_all add: normalize_js_def js_or_def)

lemma normalize_falsy: "\<not> truthy x \<Longrightarrow> normalize_js u x = Inr []"
  by (simp add: normalize_js_def js_or_def toLowerCase_Nil strip_spaces_def)

lemma normalize_textual:
  "textual x \<Longrightarrow>
   normalize_js u x = Inr (case x of JStr s \<Rightarrow> strip_spaces (toLowerCase u s) | _ \<Rightarrow> [])"
  by (cases x) (simp_all add: normalize_JStr normalize_falsy)

lemma normalize_not_textual: "\<not> textual x \<Longrightarrow> normalize_js u x = Inl TypeError"
  by (simp add: normalize_js_def call_toLowerCase_not_textual)

text \<open>The code points of the string of a list of scalars are that list.\<close>

lemma code_points_code_units:
  assumes "scalar p"
  shows "code_points (code_units p @ r) = p # code_points r"
proof (cases "0x10000 \<le> p")
  case True
  let ?h = "0xD800 + (p - 0x10000) div 0x400" and ?l = "0xDC00 + (p - 0x10000) mod 0x400"
  have "p - 0x10000 < 0x100000" using assms True by (simp add: scalar_def)
  then have "(p - 0x10000) div 0x400 < 0x400" by simp
  then have h: "high_surrogate ?h" by (simp add: high_surrogate_def)
  have l: "low_surrogate ?l" by (simp add: low_surrogate_def)
  have "0x10000 + (?h - 0xD800) * 0x400 + (?l - 0xDC00) = p"
    using True by simp
  with h l True show ?thesis by (simp add: code_units_def)
next
  case False
  then have "\<not> high_surrogate p" using assms by (auto simp: scalar_def high_surrogate_def)
  with False show ?thesis by (cases r) (simp_all add: code_units_def)
qed

lemma code_points_from_code_points:
  "list_all scalar ps \<Longrightarrow> code_points (from_code_points ps) = ps"
proof (induction ps)
  case Nil
  then show ?case by (simp add: from_code_points_def)
next
  case (Cons p ps)
  then have "code_points (code_units p @ from_code_points ps) = p # ps"
    by (simp add: code_points_code_units)
  then show ?case by (simp add: from_code_points_def)
qed

text \<open>White space is deleted from the string of a list of scalars point by point.\<close>

lemma white_space_bound: "white_space c \<Longrightarrow> c < 0xD800 \<or> c = 0xFEFF"
  unfolding white_space_def by auto

lemma surrogate_not_white_space: "0xD800 \<le> c \<Longrightarrow> c \<le> 0xDFFF \<Longrightarrow> \<not> white_space c"
  using white_space_bound [of c] by auto

lemma strip_spaces_code_units:
  assumes "scalar p"
  shows "strip_spaces (code_units p) = (if white_space p then [] else code_units p)"
proof (cases "0x10000 \<le> p")
  case True
  have "(p - 0x10000) mod 0x400 < 0x400" by simp
  then have l: "\<not> white_space (0xDC00 + (p - 0x10000) mod 0x400)"
    by (intro surrogate_not_white_space) simp_all
  have "p - 0x10000 < 0x100000" using assms True by (simp add: scalar_def)
  then have "(p - 0x10000) div 0x400 < 0x400" by simp
  then have h: "\<not> white_space (0xD800 + (p - 0x10000) div 0x400)"
    by (intro surrogate_not_white_space) simp_all
  have "\<not> white_space p" using True white_space_bound [of p] by auto
  with h l True show ?thesis by (simp add: strip_spaces_def code_units_def)
next
  case False
  then show ?thesis by (simp add: strip_spaces_def code_units_def)
qed

lemma strip_spaces_from_code_points:
  "list_all scalar ps \<Longrightarrow>
   strip_spaces (from_code_points ps) = from_code_points (filter (\<lambda>p. \<not> white_space p) ps)"
proof (induction ps)
  case Nil
  then show ?case by (simp add: from_code_points_def strip_spaces_def)
next
  case (Cons p ps)
  have "strip_spaces (code_units p @ from_code_points ps)
      = strip_spaces (code_units p) @ strip_spaces (from_code_points ps)"
    by (simp add: strip_spaces_def)
  with Cons show ?case
    by (simp add: from_code_points_def strip_spaces_code_units)
qed

lemma settled_scalar: "list_all (settled u) ps \<Longrightarrow> list_all scalar ps"
  by (induction ps) (simp_all add: settled_def)

lemma steady_scalar: "list_all (steady u) ps \<Longrightarrow> list_all scalar ps"
  by (induction ps) (simp_all add: steady_def)

text \<open>Lowering steady code points gives settled ones, which lowering leaves alone.\<close>

lemma lower_points_settled:
  "list_all (steady u) ps \<Longrightarrow> list_all (settled u) (lower_points u before ps)"
  by (induction ps arbitrary: before) (auto simp: steady_def split: if_splits)

lemma lower_points_fixed:
  "list_all (settled u) ps \<Longrightarrow> lower_points u before ps = ps"
  by (induction ps arbitrary: before) (simp_all add: settled_def lower_point_def)

lemma toLowerCase_from_steady:
  "list_all (steady u) ps \<Longrightarrow>
   toLowerCase u (from_code_points ps) = from_code_points (lower_points u [] ps)"
  by (simp add: toLowerCase_def code_points_from_code_points steady_scalar)

lemma toLowerCase_from_settled:
  "list_all (settled u) ps \<Longrightarrow> toLowerCase u (from_code_points ps) = from_code_points ps"
  by (simp add: toLowerCase_def code_points_from_code_points settled_scalar lower_points_fixed)

lemma list_all_filter: "list_all P ps \<Longrightarrow> list_all P (filter Q ps)"
  by (simp add: list_all_iff)

lemma normalize_steady_idem:
  assumes "list_all (steady u) ps"
  shows "\<exists>k. normalize_js u (JStr (from_code_points ps)) = Inr k \<and>
             normalize_js u (JStr k) = Inr k"
proof -
  let ?qs = "filter (\<lambda>p. \<not> white_space p) (lower_points u [] ps)"
  have s: "list_all (settled u) (lower_points u [] ps)"
    using assms by (rule lower_points_settled)
  then have s': "list_all (settled u) ?qs" by (rule list_all_filter)
  have k: "strip_spaces (toLowerCase u (from_code_points ps)) = from_code_points ?qs"
    using assms s
    by (simp add: toLowerCase_from_steady strip_spaces_from_code_points settled_scalar)
  have "strip_spaces (from_code_points ?qs) = from_code_points ?qs"
    using s' by (simp add: strip_spaces_from_code_points settled_scalar)
  then have "strip_spaces (toLowerCase u (from_code_points ?qs)) = from_code_points ?qs"
    by (simp only: toLowerCase_from_settled [OF s'])
  with k show ?thesis by (simp only: normalize_JStr) simp
qed

text \<open>
  On context-free code points lowering works point by point, and so commutes with the
  removal of white space.
\<close>

lemma lower_points_context_free:
  "list_all (context_free u) ps \<Longrightarrow>
   lower_points u before ps = concat (map (lower_point u) ps)"
  by (induction ps arbitrary: before) (simp_all add: context_free_def)

lemma filter_lower_point:
  "context_free u p \<Longrightarrow>
   filter (\<lambda>q. \<not> white_space q) (lower_point u p)
     = (if white_space p then [] else lower_point u p)"
  by (auto simp: context_free_def list_all_iff filter_empty_conv intro: filter_True)

lemma filter_concat_lower_point:
  "list_all (context_free u) ps \<Longrightarrow>
   filter (\<lambda>q. \<not> white_space q) (concat (map (lower_point u) ps))
     = concat (map (lower_point u) (filter (\<lambda>p. \<not> white_space p) ps))"
  by (induction ps) (simp_all add: filter_lower_point)

lemma strip_toLowerCase_commute:
  assumes "list_all (\<lambda>p. steady u p \<and> context_free u p) ps"
  shows "strip_spaces (toLowerCase u (from_code_points ps))
           = toLowerCase u (strip_spaces (from_code_points ps))"
proof -
  let ?ps' = "filter (\<lambda>p. \<not> white_space p) ps"
  have st: "list_all (steady u) ps" and cf: "list_all (context_free u) ps"
    using assms by (simp_all add: list_all_iff)
  have st': "list_all (steady u) ?ps'" and cf': "list_all (context_free u) ?ps'"
    using st cf by (simp_all add: list_all_filter)
  have s: "list_all (settled u) (lower_points u [] ps)"
    using st by (rule lower_points_settled)
  have "strip_spaces (toLowerCase u (from_code_points ps))
      = from_code_points (filter (\<lambda>q. \<not> white_space q) (lower_points u [] ps))"
    using st s
    by (simp add: toLowerCase_from_steady strip_spaces_from_code_points settled_scalar)
  also have "\<dots> = from_code_points (concat (map (lower_point u) ?ps'))"
    by (simp add: lower_points_context_free [OF cf] filter_concat_lower_point [OF cf])
  also have "\<dots> = toLowerCase u (from_code_points ?ps')"
    by (simp add: toLowerCase_from_steady [OF st'] lower_points_context_free [OF cf'])
  also have "\<dots> = toLowerCase u (strip_spaces (from_code_points ps))"
    by (simp add: strip_spaces_from_code_points steady_scalar [OF st])
  finally show ?thesis .
qed

text \<open>
  Claim C9 as it is stated fails in three ways. A truthy value that is not a string,
  such as the number of a numeric cell, makes \<^verbatim>\<open>normalize\<close> throw. The strings
  \<open>[0x391, 0x3A3, 0x20, 0x391]\<close> and \<open>[0x391, 0x3A3, 0x391]\<close> (alpha, sigma, alpha in
  capitals, with and without a space) differ only in white space and have different
  keys, because the sigma before the space becomes a final sigma. And the key of two
  lone surrogates around a space is a capital Deseret letter, whose key is the small
  letter: normalizing twice is not normalizing once.
\<close>

theorem normalize_counterexample:
  "normalize_js ucd_excerpt (JNum (str ''123'')) = Inl TypeError \<and>
   strip_spaces [0x391, 0x3A3, 0x20, 0x391] = strip_spaces [0x391, 0x3A3, 0x391] \<and>
   normalize_js ucd_excerpt (JStr [0x391, 0x3A3, 0x20, 0x391]) = Inr [0x3B1, 0x3C2, 0x3B1] \<and>
   normalize_js ucd_excerpt (JStr [0x391, 0x3A3, 0x391]) = Inr [0x3B1, 0x3C3, 0x3B1] \<and>
   normalize_js ucd_excerpt (JStr [0xD801, 0x20, 0xDC00]) = Inr [0xD801, 0xDC00] \<and>
   normalize_js ucd_excerpt (JStr [0xD801, 0xDC00]) = Inr [0xD801, 0xDC28]"
  by code_simp

text \<open>
  Claim C9, as the code has it, for every table of lower-case mappings.
  \<^verbatim>\<open>normalize\<close> is a function of its argument. It returns a key on every textual
  input \<open>x\<close>, that is on every string and every falsy value, and throws a TypeError on
  every other input \<open>y\<close>. On a falsy input \<open>z\<close> (\<^verbatim>\<open>null\<close> and \<^verbatim>\<open>undefined\<close> among
  them) the key is the empty string, which is its own key. On the string of steady
  code points \<open>ps\<close> (no lone surrogates, and lower-case forms that lowering leaves
  alone) normalizing the key gives the key again. The strings of steady, context-free
  code points \<open>ps\<close> and \<open>qs\<close> (no capital sigma either) have the same key when they are
  equal once white space is deleted and the case of letters is ignored.
\<close>

theorem normalize_textual_idempotent:
  "(textual x \<longrightarrow> (\<exists>k. normalize_js u x = Inr k)) \<and>
   (\<not> textual y \<longrightarrow> normalize_js u y = Inl TypeError) \<and>
   (\<not> truthy z \<longrightarrow> normalize_js u z = Inr [] \<and> normalize_js u (JStr []) = Inr []) \<and>
   (list_all (steady u) ps \<longrightarrow>
      (\<exists>k. normalize_js u (JStr (from_code_points ps)) = Inr k \<and>
           normalize_js u (JStr k) = Inr k)) \<and>
   (list_all (\<lambda>p. steady u p \<and> context_free u p) ps \<and>
    list_all (\<lambda>p. steady u p \<and> context_free u p) qs \<and>
    toLowerCase u (strip_spaces (from_code_points ps))
      = toLowerCase u (strip_spaces (from_code_points qs)) \<longrightarrow>
      normalize_js u (JStr (from_code_points ps)) = normalize_js u (JStr (from_code_points qs)))"
proof (intro conjI impI)
  assume "textual x"
  then show "\<exists>k. normalize_js u x = Inr k" by (simp add: normalize_textual)
next
  assume "\<not> textual y"
  then show "normalize_js u y = Inl TypeError" by (rule normalize_not_textual)
next
  assume "\<not> truthy z"
  then show "normalize_js u z = Inr []" by (rule normalize_falsy)
next
  show "normalize_js u (JStr []) = Inr []" by (simp add: normalize_falsy)
next
  assume "list_all (steady u) ps"
  then show "\<exists>k. normalize_js u (JStr (from_code_points ps)) = Inr k \<and>
                 normalize_js u (JStr k) = Inr k"
    by (rule normalize_steady_idem)
next
  assume "list_all (\<lambda>p. steady u p \<and> context_free u p) ps \<and>
    list_all (\<lambda>p. steady u p \<and> context_free u p) qs \<and>
    toLowerCase u (strip_spaces (from_code_points ps))
      = toLowerCase u (strip_spaces (from_code_points qs))"
  then show "normalize_js u (JStr (from_code_points ps))
               = normalize_js u (JStr (from_code_points qs))"
    by (simp add: normalize_JStr strip_toLowerCase_commute)
qed

theorem normalize_textual_idempotent_witness:
  "textual JNull \<and> \<not> textual (JNum (str ''123'')) \<and> \<not> truthy JUndefined \<and>
   from_code_points (str ''  Mumbai '' @ [0x10400]) = str ''  Mumbai '' @ [0xD801, 0xDC00] \<and>
   from_code_points (str ''mumbai'' @ [0x10428]) = str ''mumbai'' @ [0xD801, 0xDC28] \<and>
   list_all (\<lambda>p. steady ucd_excerpt p \<and> context_free ucd_excerpt p)
     (str ''  Mumbai '' @ [0x10400]) \<and>
   list_all (\<lambda>p. steady ucd_excerpt p \<and> context_free ucd_excerpt p)
     (str ''mumbai'' @ [0x10428]) \<and>
   normalize_js ucd_excerpt (JNum (str ''123'')) = Inl TypeError \<and>
   normalize_js ucd_excerpt JUndefined = Inr [] \<and>
   normalize_js ucd_excerpt (JStr (str ''  Mumbai '' @ [0xD801, 0xDC00]))
     = Inr (str ''mumbai'' @ [0xD801, 0xDC28]) \<and>
   normalize_js ucd_excerpt (JStr (str ''mumbai'' @ [0xD801, 0xDC28]))
     = Inr (str ''mumbai'' @ [0xD801, 0xDC28])"
proof -
  let ?ps = "str ''  Mumbai '' @ [0x10400]" and ?qs = "str ''mumbai'' @ [0x10428]"
  have h1: "textual JNull" by code_simp
  have h2: "\<not> textual (JNum (str ''123''))" by code_simp
  have h3: "\<not> truthy JUndefined" by code_simp
  have f1: "from_code_points ?ps = str ''  Mumbai '' @ [0xD801, 0xDC00]" by code_simp
  have f2: "from_code_points ?qs = str ''mumbai'' @ [0xD801, 0xDC28]" by code_simp
  have h4: "list_all (\<lambda>p. steady ucd_excerpt p \<and> context_free ucd_excerpt p) ?ps"
    by code_simp
  have h5: "list_all (\<lambda>p. steady ucd_excerpt p \<and> context_free ucd_excerpt p) ?qs"
    by code_simp
  have h6: "toLowerCase ucd_excerpt (strip_spaces (from_code_points ?ps))
              = toLowerCase ucd_excerpt (strip_spaces (from_code_points ?qs))"
    by code_simp
  have e: "normalize_js ucd_excerpt (JStr (str ''mumbai'' @ [0xD801, 0xDC28]))
             = Inr (str ''mumbai'' @ [0xD801, 0xDC28])"
    by code_simp
  note inst = normalize_textual_idempotent
    [of JNull ucd_excerpt "JNum (str ''123'')" JUndefined ?ps ?qs]
  from inst h2 have c1: "normalize_js ucd_excerpt (JNum (str ''123'')) = Inl TypeError"
    by blast
  from inst h3 have c2: "normalize_js ucd_excerpt JUndefined = Inr []"
    by blast
  from inst h4 h5 h6 have "normalize_js ucd_excerpt (JStr (from_code_points ?ps))
      = normalize_js ucd_excerpt (JStr (from_code_points ?qs))"
    by blast
  with e f1 f2
  have c3: "normalize_js ucd_excerpt (JStr (str ''  Mumbai '' @ [0xD801, 0xDC00]))
              = Inr (str ''mumbai'' @ [0xD801, 0xDC28])"
    by simp
  from h1 h2 h3 f1 f2 h4 h5 c1 c2 c3 e show ?thesis by (intro conjI)
qed

section \<open>The facet builder: claim C8\<close>

lemma set_add_set: "set (set_add v xs) = insert v (set xs)"
  by (auto simp: set_add_def)

lemma set_add_distinct: "distinct xs \<Longrightarrow> distinct (set_add v xs)"
  by (simp add: set_add_def)

lemma fold_add_set:
  "set (fold (\<lambda>r vs. if P (f r) then set_add (f r) vs else vs) rows vs0)
     = set vs0 \<union> {f r | r. r \<in> set rows \<and> P (f r)}"
  by (induction rows arbitrary: vs0) (auto simp: set_add_set)

lemma fold_add_distinct:
  "distinct vs0 \<Longrightarrow> distinct (fold (\<lambda>r vs. if P (f r) then set_add (f r) vs else vs) rows vs0)"
  by (induction rows arbitrary: vs0) (auto simp: set_add_distinct)

lemma fold_add_facet_ok:
  assumes "\<not> P JNull" and "\<not> P (JStr [])"
  shows "facet_ok rows f (fold (\<lambda>r vs. if P (f r) then set_add (f r) vs else vs) rows [])"
  unfolding facet_ok_def using assms
  by (auto simp: fold_add_set fold_add_distinct)

lemma Status_vals_fold:
  "Status_vals (fold collect rows cv) =
     fold (\<lambda>r vs. if truthy (Status r) then set_add (Status r) vs else vs) rows (Status_vals cv)"
  by (induction rows arbitrary: cv) (simp_all add: collect_def)

lemma Category_vals_fold:
  "Category_vals (fold collect rows cv) =
     fold (\<lambda>r vs. if truthy (Category r) then set_add (Category r) vs else vs) rows (Category_vals cv)"
  by (induction rows arbitrary: cv) (simp_all add: collect_def)

lemma City_vals_fold:
  "City_vals (fold collect rows cv) =
     fold (\<lambda>r vs. if truthy (City r) then set_add (City r) vs else vs) rows (City_vals cv)"
  by (induction rows arbitrary: cv) (simp_all add: collect_def)

lemma State_vals_fold:
  "State_vals (fold collect rows cv) =
     fold (\<lambda>r vs. if truthy (State r) then set_add (State r) vs else vs) rows (State_vals cv)"
  by (induction rows arbitrary: cv) (simp_all add: collect_def)

lemma PoC_vals_fold:
  "PoC_vals (fold collect rows cv) =
     fold (\<lambda>r vs. if truthy (PoC r) then set_add (PoC r) vs else vs) rows (PoC_vals cv)"
  by (induction rows arbitrary: cv) (simp_all add: collect_def)

lemma GP_vals_fold:
  "GP_vals (fold collect rows cv) =
     fold (\<lambda>r vs. if truthy (GP r) then set_add (GP r) vs else vs) rows (GP_vals cv)"
  by (induction rows arbitrary: cv) (simp_all add: collect_def)

lemma Year_vals_fold:
  "Year_vals (fold collect rows cv) =
     fold (\<lambda>r vs. if (\<lambda>v. v \<noteq> JNull \<and> v \<noteq> JUndefined \<and> v \<noteq> JStr []) (Year r)
                   then set_add (Year r) vs else vs) rows (Year_vals cv)"
  by (induction rows arbitrary: cv) (simp_all add: collect_def)

text \<open>
  Claim C8. For every row sequence, each of the seven sets that \<^verbatim>\<open>populateFilters\<close>
  builds holds neither \<^verbatim>\<open>null\<close> nor the empty string, holds no value twice, and
  holds only values of its field in some row.
\<close>

theorem facet_sets_hold_observed_values:
  "facet_ok rows Status (Status_vals (populateFilters rows)) \<and>
   facet_ok rows Category (Category_vals (populateFilters rows)) \<and>
   facet_ok rows City (City_vals (populateFilters rows)) \<and>
   facet_ok rows State (State_vals (populateFilters rows)) \<and>
   facet_ok rows PoC (PoC_vals (populateFilters rows)) \<and>
   facet_ok rows GP (GP_vals (populateFilters rows)) \<and>
   facet_ok rows Year (Year_vals (populateFilters rows))"
proof -
  have t: "\<not> truthy JNull" "\<not> truthy (JStr [])" by simp_all
  have y: "\<not> (\<lambda>v. v \<noteq> JNull \<and> v \<noteq> JUndefined \<and> v \<noteq> JStr []) JNull"
          "\<not> (\<lambda>v. v \<noteq> JNull \<and> v \<noteq> JUndefined \<and> v \<noteq> JStr []) (JStr [])" by simp_all
  have 1: "facet_ok rows Status (Status_vals (populateFilters rows))"
    unfolding populateFilters_def Status_vals_fold using fold_add_facet_ok [OF t] by simp
  have 2: "facet_ok rows Category (Category_vals (populateFilters rows))"
    unfolding populateFilters_def Category_vals_fold using fold_add_facet_ok [OF t] by simp
  have 3: "facet_ok rows City (City_vals (populateFilters rows))"
    unfolding populateFilters_def City_vals_fold using fold_add_facet_ok [OF t] by simp
  have 4: "facet_ok rows State (State_vals (populateFilters rows))"
    unfolding populateFilters_def State_vals_fold using fold_add_facet_ok [OF t] by simp
  have 5: "facet_ok rows PoC (PoC_vals (populateFilters rows))"
    unfolding populateFilters_def PoC_vals_fold using fold_add_facet_ok [OF t] by simp
  have 6: "facet_ok rows GP (GP_vals (populateFilters rows))"
    unfolding populateFilters_def GP_vals_fold using fold_add_facet_ok [OF t] by simp
  have 7: "facet_ok rows Year (Year_vals (populateFilters rows))"
    unfolding populateFilters_def Year_vals_fold using fold_add_facet_ok [OF y] by simp
  from 1 2 3 4 5 6 7 show ?thesis by blast
qed

theorem facet_sets_hold_observed_values_witness:
  "populateFilters [pune_row, unknownville_row, pune_row\<lparr>Year := JNum (str ''2021''), State := JStr []\<rparr>]
     = \<lparr>Status_vals = [JStr (str ''Completed''), JStr (str ''Hold'')], Category_vals = [],
        City_vals = [JStr (str ''Pune''), JStr (str ''Unknownville'')], State_vals = [],
        PoC_vals = [], GP_vals = [], Year_vals = [JNum (str ''2021'')]\<rparr> \<and>
   facet_ok [pune_row, unknownville_row, pune_row\<lparr>Year := JNum (str ''2021''), State := JStr []\<rparr>]
     Status [JStr (str ''Completed''), JStr (str ''Hold'')] \<and>
   facet_ok [pune_row, unknownville_row, pune_row\<lparr>Year := JNum (str ''2021''), State := JStr []\<rparr>]
     State [] \<and>
   facet_ok [pune_row, unknownville_row, pune_row\<lparr>Year := JNum (str ''2021''), State := JStr []\<rparr>]
     Year [JNum (str ''2021'')]"
proof -
  let ?rows = "[pune_row, unknownville_row, pune_row\<lparr>Year := JNum (str ''2021''), State := JStr []\<rparr>]"
  have e: "populateFilters ?rows
     = \<lparr>Status_vals = [JStr (str ''Completed''), JStr (str ''Hold'')], Category_vals = [],
        City_vals = [JStr (str ''Pune''), JStr (str ''Unknownville'')], State_vals = [],
        PoC_vals = [], GP_vals = [], Year_vals = [JNum (str ''2021'')]\<rparr>"
    by code_simp
  from facet_sets_hold_observed_values [of ?rows] show ?thesis
    unfolding e by simp
qed

section \<open>The city index: claims C2, C3 and C4\<close>

lemma forEach_fallback_returns: "\<exists>idx'. forEach (fallback_record u) t idx = (None, idx')"
  by (induction t arbitrary: idx) (simp_all add: fallback_record_def normalize_JStr)

text \<open>No exception leaves \<^verbatim>\<open>loadCityIndex\<close>.\<close>

lemma loadCityIndex_returns: "fst (loadCityIndex u resp coords g) = None"
proof -
  obtain e g1 where t: "try_block u resp g = (e, g1)" by (cases "try_block u resp g")
  obtain idx' where f: "forEach (fallback_record u) (fallback_table coords) (CITY_INDEX g1) = (None, idx')"
    using forEach_fallback_returns by blast
  show ?thesis using t f by (cases e) (simp_all add: loadCityIndex_def)
qed

text \<open>
  The two paths set the flag differently: after the \<^verbatim>\<open>catch\<close> block it says
  whether the index has an entry, after a \<^verbatim>\<open>try\<close> block that completes it is true.
\<close>

lemma loadCityIndex_ready_fallback_path:
  assumes "try_block u resp g = (Some e, g1)"
  shows "CITY_INDEX_READY (snd (loadCityIndex u resp coords g))
           \<longleftrightarrow> CITY_INDEX (snd (loadCityIndex u resp coords g)) \<noteq> []"
proof -
  obtain idx' where f: "forEach (fallback_record u) (fallback_table coords) (CITY_INDEX g1) = (None, idx')"
    using forEach_fallback_returns by blast
  show ?thesis using assms f by (simp add: loadCityIndex_def)
qed

lemma loadCityIndex_ready_primary_path:
  assumes "try_block u resp g = (None, g1)"
  shows "loadCityIndex u resp coords g = (None, g1) \<and> CITY_INDEX_READY g1"
proof -
  have "CITY_INDEX_READY g1"
    using assms
    by (auto simp: try_block_def split: fetch_outcome.splits sum.splits jsval.splits
          prod.splits option.splits)
  with assms show ?thesis by (simp add: loadCityIndex_def)
qed

text \<open>
  Claim C2 asks that the flag be true exactly when the index has an entry, whichever
  source filled it. The code does not do so on the primary path: when the primary
  resource parses to the empty array, whatever the fallback table, the index stays
  empty and the flag is set to true.
\<close>

theorem loadCityIndex_empty_primary_ready:
  "loadCityIndex u (Parsed (JArr [])) coords initial
     = (None, \<lparr>CITY_INDEX = [], CITY_INDEX_READY = True\<rparr>)"
  by (simp add: loadCityIndex_def try_block_def cities_of_def initial_def)

text \<open>
  Claim C3 asks that every entry of the index come from one source, also when an
  error occurs partway through the primary records. The code does not do so: the
  primary loop writes into \<^verbatim>\<open>CITY_INDEX\<close> itself, and the \<^verbatim>\<open>catch\<close> block
  adds the fallback table to what the loop has written. With a primary array of one
  good record followed by \<^verbatim>\<open>null\<close>, the index ends with the entry of the record
  and the entry of the table.
\<close>

theorem loadCityIndex_mixes_sources:
  "loadCityIndex ucd_excerpt (Parsed (JArr [delhi_record, JNull])) (Some [pune_fallback]) initial
     = (None,
        \<lparr>CITY_INDEX =
           [(str ''delhi'', \<lparr>lat = ToNumber (JNum (str ''28.6139'')), lon = ToNumber (JNum (str ''77.209'')),
                        state = JStr (str ''Delhi'')\<rparr>),
            (str ''pune'', \<lparr>lat = ToNumber (JNum (str ''18.5204'')), lon = ToNumber (JNum (str ''73.8567'')),
                       state = JStr (str ''Maharashtra'')\<rparr>)],
         CITY_INDEX_READY = True\<rparr>) \<and>
   \<not> from_primary ucd_excerpt [delhi_record, JNull]
        (CITY_INDEX (snd (loadCityIndex ucd_excerpt (Parsed (JArr [delhi_record, JNull])) (Some [pune_fallback]) initial))) \<and>
   \<not> from_fallback ucd_excerpt [pune_fallback]
        (CITY_INDEX (snd (loadCityIndex ucd_excerpt (Parsed (JArr [delhi_record, JNull])) (Some [pune_fallback]) initial)))"
  by code_simp

text \<open>
  Claim C4 as it is stated fails: a primary record whose city is white space is stored
  under the empty key, which is the key of \<^verbatim>\<open>null\<close>, and a row whose city is
  \<^verbatim>\<open>null\<close> resolves to it.
\<close>

theorem resolveCity_null_counterexample:
  "City blank_row = JNull \<and>
   resolveCity ucd_excerpt (CITY_INDEX (snd (loadCityIndex ucd_excerpt (Parsed (JArr [blank_city_record])) None initial)))
      (City blank_row)
     = Inr (Some \<lparr>lat = ToNumber (JNum (str ''1'')), lon = ToNumber (JNum (str ''2'')), state = JNull\<rparr>)"
  by code_simp

lemma map_get_map_set: "map_get (map_set idx k v) = (map_get idx)(k \<mapsto> v)"
  by (rule ext) (simp add: map_get_def map_set_def update_conv')

lemma primary_record_sets:
  "primary_record u c idx = Inr idx' \<Longrightarrow> \<exists>k v. city_key u c = Inr k \<and> idx' = map_set idx k v"
  by (auto simp: primary_record_def split: sum.splits)

lemma fallback_record_sets:
  "fallback_record u kv idx = Inr idx' \<Longrightarrow>
   \<exists>k v. normalize_js u (JStr (fst kv)) = Inr k \<and> idx' = map_set idx k v"
  by (auto simp: fallback_record_def split: sum.splits)

lemma forEach_primary_keys:
  "forEach (primary_record u) cs idx = (e, idx') \<Longrightarrow>
   dom (map_get idx') \<subseteq> dom (map_get idx) \<union> {k. \<exists>c\<in>set cs. city_key u c = Inr k}"
proof (induction cs arbitrary: idx)
  case Nil
  then show ?case by simp
next
  case (Cons c cs)
  show ?case
  proof (cases "primary_record u c idx")
    case (Inl err)
    with Cons.prems show ?thesis by auto
  next
    case (Inr idx1)
    with Cons.prems have "forEach (primary_record u) cs idx1 = (e, idx')" by simp
    from Cons.IH [OF this]
    have ih: "dom (map_get idx') \<subseteq> dom (map_get idx1) \<union> {k. \<exists>c\<in>set cs. city_key u c = Inr k}" .
    from primary_record_sets [OF Inr] obtain k v
      where k: "city_key u c = Inr k" and i: "idx1 = map_set idx k v" by blast
    have "dom (map_get idx1) = insert k (dom (map_get idx))"
      by (simp add: i map_get_map_set)
    with ih k show ?thesis by auto
  qed
qed

lemma forEach_fallback_keys:
  "forEach (fallback_record u) t idx = (e, idx') \<Longrightarrow>
   dom (map_get idx')
     \<subseteq> dom (map_get idx) \<union> {k. \<exists>kv\<in>set t. normalize_js u (JStr (fst kv)) = Inr k}"
proof (induction t arbitrary: idx)
  case Nil
  then show ?case by simp
next
  case (Cons kv t)
  show ?case
  proof (cases "fallback_record u kv idx")
    case (Inl err)
    with Cons.prems show ?thesis by auto
  next
    case (Inr idx1)
    with Cons.prems have "forEach (fallback_record u) t idx1 = (e, idx')" by simp
    from Cons.IH [OF this]
    have ih: "dom (map_get idx')
      \<subseteq> dom (map_get idx1) \<union> {k. \<exists>kv\<in>set t. normalize_js u (JStr (fst kv)) = Inr k}" .
    from fallback_record_sets [OF Inr] obtain k v
      where k: "normalize_js u (JStr (fst kv)) = Inr k" and i: "idx1 = map_set idx k v" by blast
    have "dom (map_get idx1) = insert k (dom (map_get idx))"
      by (simp add: i map_get_map_set)
    with ih k show ?thesis by auto
  qed
qed

lemma try_block_keys:
  "dom (map_get (CITY_INDEX (snd (try_block u resp g))))
     \<subseteq> dom (map_get (CITY_INDEX g)) \<union> {k. \<exists>c\<in>set (primary_records resp). city_key u c = Inr k}"
proof (cases resp)
  case (Parsed obj)
  show ?thesis
  proof (cases "cities_of obj")
    case (Inl e)
    with Parsed show ?thesis by (simp add: try_block_def)
  next
    case (Inr arr)
    show ?thesis
    proof (cases arr)
      case (JArr cs)
      obtain e idx' where f: "forEach (primary_record u) cs (CITY_INDEX g) = (e, idx')"
        by (cases "forEach (primary_record u) cs (CITY_INDEX g)")
      from forEach_primary_keys [OF f] Parsed Inr JArr f show ?thesis
        by (cases e) (simp_all add: try_block_def primary_records_def)
    qed (use Parsed Inr in \<open>simp_all add: try_block_def\<close>)
  qed
qed (simp_all add: try_block_def)

lemma loadCityIndex_keys:
  "dom (map_get (CITY_INDEX (snd (loadCityIndex u resp coords g))))
     \<subseteq> dom (map_get (CITY_INDEX g))
       \<union> {k. \<exists>c\<in>set (primary_records resp). city_key u c = Inr k}
       \<union> {k. \<exists>kv\<in>set (fallback_table coords). normalize_js u (JStr (fst kv)) = Inr k}"
proof -
  obtain e g1 where t: "try_block u resp g = (e, g1)" by (cases "try_block u resp g")
  have k1: "dom (map_get (CITY_INDEX g1))
     \<subseteq> dom (map_get (CITY_INDEX g)) \<union> {k. \<exists>c\<in>set (primary_records resp). city_key u c = Inr k}"
    using try_block_keys [of u resp g] t by simp
  show ?thesis
  proof (cases e)
    case None
    with t k1 show ?thesis by (auto simp: loadCityIndex_def)
  next
    case (Some err)
    obtain e2 idx2
      where f: "forEach (fallback_record u) (fallback_table coords) (CITY_INDEX g1) = (e2, idx2)"
      by (cases "forEach (fallback_record u) (fallback_table coords) (CITY_INDEX g1)")
    have "CITY_INDEX (snd (loadCityIndex u resp coords g)) = idx2"
      using t Some f by (cases e2) (simp_all add: loadCityIndex_def)
    with forEach_fallback_keys [OF f] k1 show ?thesis by auto
  qed
qed

lemma resolveCity_null: "resolveCity u idx JNull = Inr (map_get idx [])"
  by (simp add: resolveCity_def normalize_falsy)

lemma dom_map_get_Nil: "dom (map_get []) = {}"
  by (simp add: dom_def map_get_def)

text \<open>
  Claim C4, as the code has it. \<^verbatim>\<open>resolveCity\<close> has no guard for the empty key:
  on \<^verbatim>\<open>null\<close> it looks the empty key up (\<open>resolveCity_null\<close>). When no record of
  the primary resource and no name of the fallback table normalizes to the empty
  string, the index built from them has no entry under the empty key, and a row whose
  city is \<^verbatim>\<open>null\<close> is unresolved.
\<close>

theorem resolveCity_null_unresolved:
  assumes "\<forall>c\<in>set (primary_records resp). city_key u c \<noteq> Inr []"
    and "\<forall>kv\<in>set (fallback_table coords). normalize_js u (JStr (fst kv)) \<noteq> Inr []"
    and "City r = JNull"
  shows "resolveCity u (CITY_INDEX (snd (loadCityIndex u resp coords initial))) (City r) = Inr None"
proof -
  have "dom (map_get (CITY_INDEX initial)) = {}"
    by (simp add: initial_def dom_map_get_Nil)
  with loadCityIndex_keys [of u resp coords initial] assms(1,2)
  have "[] \<notin> dom (map_get (CITY_INDEX (snd (loadCityIndex u resp coords initial))))"
    by auto
  then have "map_get (CITY_INDEX (snd (loadCityIndex u resp coords initial))) [] = None"
    by blast
  then show ?thesis by (simp add: resolveCity_null assms(3))
qed

theorem resolveCity_null_unresolved_witness:
  "list_all (\<lambda>c. city_key ucd_excerpt c \<noteq> Inr []) (primary_records (Parsed (JArr [delhi_record, JNull]))) \<and>
   list_all (\<lambda>kv. normalize_js ucd_excerpt (JStr (fst kv)) \<noteq> Inr []) (fallback_table (Some [pune_fallback])) \<and>
   City blank_row = JNull \<and>
   resolveCity ucd_excerpt
     (CITY_INDEX (snd (loadCityIndex ucd_excerpt (Parsed (JArr [delhi_record, JNull])) (Some [pune_fallback]) initial)))
     (City blank_row) = Inr None"
proof -
  have l1: "list_all (\<lambda>c. city_key ucd_excerpt c \<noteq> Inr [])
              (primary_records (Parsed (JArr [delhi_record, JNull])))"
    by code_simp
  have l2: "list_all (\<lambda>kv. normalize_js ucd_excerpt (JStr (fst kv)) \<noteq> Inr [])
              (fallback_table (Some [pune_fallback]))"
    by code_simp
  have h1: "\<forall>c\<in>set (primary_records (Parsed (JArr [delhi_record, JNull]))). city_key ucd_excerpt c \<noteq> Inr []"
    using l1 by (simp only: list_all_iff)
  have h2: "\<forall>kv\<in>set (fallback_table (Some [pune_fallback])). normalize_js ucd_excerpt (JStr (fst kv)) \<noteq> Inr []"
    using l2 by (simp only: list_all_iff)
  have h3: "City blank_row = JNull" by code_simp
  from resolveCity_null_unresolved [OF h1 h2 h3] l1 l2 h3 show ?thesis by simp
qed

section \<open>The marker renderer: claims C5 and C10\<close>

lemma render_row_throws:
  "resolveCity u idx (City r) = Inl e \<Longrightarrow> render_row u idx r st = Inl e"
  by (simp add: render_row_def)

lemma render_row_missing:
  "resolveCity u idx (City r) = Inr None \<Longrightarrow>
   render_row u idx r st = Inr (st\<lparr>missing := missing st + 1\<rparr>)"
  by (simp add: render_row_def)

lemma render_row_plotted:
  "resolveCity u idx (City r) = Inr (Some coord) \<Longrightarrow>
   render_row u idx r st =
     Inr (st\<lparr>markersLayer := markersLayer st @ [circleMarker r coord], plotted := plotted st + 1\<rparr>)"
  by (simp add: render_row_def)

lemma forEach_render_row:
  "forEach (render_row u idx) rs st = (None, st') \<Longrightarrow>
   markersLayer st' = markersLayer st @ List.map_filter (marker_of u idx) rs \<and>
   plotted st' = plotted st + length (filter (\<lambda>r. resolveCity u idx (City r) \<noteq> Inr None) rs) \<and>
   missing st' = missing st + length (filter (\<lambda>r. resolveCity u idx (City r) = Inr None) rs) \<and>
   (\<forall>r\<in>set rs. \<exists>res. resolveCity u idx (City r) = Inr res)"
proof (induction rs arbitrary: st)
  case Nil
  then show ?case by simp
next
  case (Cons r rs)
  show ?case
  proof (cases "resolveCity u idx (City r)")
    case (Inl e)
    with Cons.prems show ?thesis by (simp add: render_row_throws)
  next
    case (Inr res)
    show ?thesis
    proof (cases res)
      case None
      with Inr Cons.prems
      have "forEach (render_row u idx) rs (st\<lparr>missing := missing st + 1\<rparr>) = (None, st')"
        by (simp add: render_row_missing)
      from Cons.IH [OF this] Inr None show ?thesis
        by (simp add: marker_of_def)
    next
      case (Some coord)
      with Inr Cons.prems
      have "forEach (render_row u idx) rs
              (st\<lparr>markersLayer := markersLayer st @ [circleMarker r coord],
                  plotted := plotted st + 1\<rparr>) = (None, st')"
        by (simp add: render_row_plotted)
      from Cons.IH [OF this] Inr Some show ?thesis
        by (simp add: marker_of_def)
    qed
  qed
qed

text \<open>A call that returns has filtered the rows and run the loop to its end.\<close>

lemma renderMarkers_run:
  assumes "renderMarkers u idx sel rows = (Inr (p, m), layer)"
  shows "\<exists>filtered st.
           applyFilters u rows sel = Inr filtered \<and>
           forEach (render_row u idx) filtered \<lparr>markersLayer = [], missing = 0, plotted = 0\<rparr>
             = (None, st) \<and>
           p = plotted st \<and> m = missing st \<and> layer = markersLayer st"
proof (cases "applyFilters u rows sel")
  case (Inl e)
  with assms show ?thesis by (simp add: renderMarkers_def)
next
  case (Inr filtered)
  let ?st0 = "\<lparr>markersLayer = [], missing = 0, plotted = 0\<rparr>"
  obtain e st where f: "forEach (render_row u idx) filtered ?st0 = (e, st)"
    by (cases "forEach (render_row u idx) filtered ?st0")
  with assms Inr have "e = None" "p = plotted st" "m = missing st" "layer = markersLayer st"
    by (cases e; simp add: renderMarkers_def)+
  with f Inr show ?thesis by simp
qed

lemma forEach_render_row_returns:
  "\<forall>r\<in>set rs. textual (City r) \<Longrightarrow> \<exists>st'. forEach (render_row u idx) rs st = (None, st')"
proof (induction rs arbitrary: st)
  case Nil
  then show ?case by simp
next
  case (Cons r rs)
  then have "resolveCity u idx (City r) = Inr (map_get idx (case City r of JStr s \<Rightarrow> strip_spaces (toLowerCase u s) | _ \<Rightarrow> []))"
    by (simp add: resolveCity_def normalize_textual)
  then obtain st1 where "render_row u idx r st = Inr st1"
    by (cases "map_get idx (case City r of JStr s \<Rightarrow> strip_spaces (toLowerCase u s) | _ \<Rightarrow> [])")
       (simp_all add: render_row_missing render_row_plotted)
  with Cons show ?case by simp
qed

text \<open>
  \<^verbatim>\<open>renderMarkers\<close> returns on every row sequence whose companies and cities are
  textual.
\<close>

lemma renderMarkers_returns:
  assumes "\<forall>r\<in>set rows. textual (Company r) \<and> textual (City r)"
  shows "\<exists>p m layer. renderMarkers u idx sel rows = (Inr (p, m), layer)"
proof -
  let ?filtered = "filter (\<lambda>r. filter_callback u sel r = Inr True) rows"
  have a: "applyFilters u rows sel = Inr ?filtered"
    using assms by (intro applyFilters_returns) simp
  have "\<forall>r\<in>set ?filtered. textual (City r)" using assms by simp
  from forEach_render_row_returns [OF this] obtain st'
    where "forEach (render_row u idx) ?filtered \<lparr>markersLayer = [], missing = 0, plotted = 0\<rparr>
             = (None, st')"
    by blast
  with a show ?thesis by (simp add: renderMarkers_def)
qed

text \<open>
  Claim C5. When \<^verbatim>\<open>renderMarkers\<close> returns the counts \<open>p\<close> (plotted) and \<open>m\<close>
  (missing) and leaves the layer \<open>layer\<close>, the rows have been filtered, the layer holds
  one marker for each filtered row whose city resolves, drawn at the resolved entry,
  and none for a row whose city does not resolve; \<open>p\<close> is the number of filtered rows
  that resolve and \<open>m\<close> the number of those that do not. Row by row,
  \<open>render_row_missing\<close> and \<open>render_row_plotted\<close> say the same.
\<close>

theorem renderMarkers_skips_unresolved:
  assumes "renderMarkers u idx sel rows = (Inr (p, m), layer)"
  shows "\<exists>filtered. applyFilters u rows sel = Inr filtered \<and>
           layer = List.map_filter (marker_of u idx) filtered \<and>
           p = length (filter (\<lambda>r. resolveCity u idx (City r) \<noteq> Inr None) filtered) \<and>
           m = length (filter (\<lambda>r. resolveCity u idx (City r) = Inr None) filtered)"
proof -
  from renderMarkers_run [OF assms] obtain filtered st
    where a: "applyFilters u rows sel = Inr filtered"
      and f: "forEach (render_row u idx) filtered \<lparr>markersLayer = [], missing = 0, plotted = 0\<rparr>
                = (None, st)"
      and r: "p = plotted st" "m = missing st" "layer = markersLayer st"
    by blast
  from forEach_render_row [OF f] r
  have "layer = List.map_filter (marker_of u idx) filtered"
    and "p = length (filter (\<lambda>r. resolveCity u idx (City r) \<noteq> Inr None) filtered)"
    and "m = length (filter (\<lambda>r. resolveCity u idx (City r) = Inr None) filtered)"
    by simp_all
  with a show ?thesis by blast
qed

theorem renderMarkers_skips_unresolved_witness:
  "renderMarkers ucd_excerpt [(str ''pune'', pune_entry)] emptySelection [pune_row, unknownville_row]
     = (Inr (1, 1), [circleMarker pune_row pune_entry]) \<and>
   (\<exists>filtered. applyFilters ucd_excerpt [pune_row, unknownville_row] emptySelection = Inr filtered \<and>
      [circleMarker pune_row pune_entry] = List.map_filter (marker_of ucd_excerpt [(str ''pune'', pune_entry)]) filtered \<and>
      1 = length (filter (\<lambda>r. resolveCity ucd_excerpt [(str ''pune'', pune_entry)] (City r) \<noteq> Inr None) filtered) \<and>
      1 = length (filter (\<lambda>r. resolveCity ucd_excerpt [(str ''pune'', pune_entry)] (City r) = Inr None) filtered))"
proof -
  have e: "renderMarkers ucd_excerpt [(str ''pune'', pune_entry)] emptySelection [pune_row, unknownville_row]
             = (Inr (1, 1), [circleMarker pune_row pune_entry])"
    by code_simp
  from renderMarkers_skips_unresolved [OF e] e show ?thesis by simp
qed

text \<open>
  Claim C10. When \<^verbatim>\<open>renderMarkers\<close> returns the counts \<open>p\<close> and \<open>m\<close>, their sum is
  the number of rows that \<^verbatim>\<open>applyFilters\<close> has returned: each filtered row is counted
  once, as plotted or as missing.
\<close>

theorem renderMarkers_count_conservation:
  assumes "renderMarkers u idx sel rows = (Inr (p, m), layer)"
  shows "\<exists>filtered. applyFilters u rows sel = Inr filtered \<and> p + m = length filtered"
proof -
  from renderMarkers_run [OF assms] obtain filtered st
    where a: "applyFilters u rows sel = Inr filtered"
      and f: "forEach (render_row u idx) filtered \<lparr>markersLayer = [], missing = 0, plotted = 0\<rparr>
                = (None, st)"
      and r: "p = plotted st" "m = missing st"
    by blast
  from forEach_render_row [OF f] r
  have p: "p = length (filter (\<lambda>r. resolveCity u idx (City r) \<noteq> Inr None) filtered)"
    and m: "m = length (filter (\<lambda>r. resolveCity u idx (City r) = Inr None) filtered)"
    by simp_all
  have "m + p = length filtered"
    unfolding p m
    using sum_length_filter_compl [of "\<lambda>r. resolveCity u idx (City r) = Inr None" filtered]
    by simp
  with a show ?thesis by (simp add: add.commute)
qed

theorem renderMarkers_count_conservation_witness:
  "renderMarkers ucd_excerpt [(str ''pune'', pune_entry)] (with_criterion By_status (str ''Hold'') emptySelection)
      [pune_row, unknownville_row, unknownville_row]
     = (Inr (0, 2), []) \<and>
   (\<exists>filtered. applyFilters ucd_excerpt [pune_row, unknownville_row, unknownville_row]
                  (with_criterion By_status (str ''Hold'') emptySelection) = Inr filtered \<and>
                (0::nat) + 2 = length filtered)"
proof -
  have e: "renderMarkers ucd_excerpt [(str ''pune'', pune_entry)] (with_criterion By_status (str ''Hold'') emptySelection)
             [pune_row, unknownville_row, unknownville_row] = (Inr (0, 2), [])"
    by code_simp
  from renderMarkers_count_conservation [OF e] e show ?thesis by simp
qed

end
